theory Spec2Isabelle
  imports Complex_Main
begin

section \<open>Conventions\<close>

text \<open>
  The repository holds two applications that both track cursor sessions:
  \<^item> \<^verbatim>\<open>backend/\<close>: the model \<^verbatim>\<open>CursorLog\<close> with the flat fields
    \<^verbatim>\<open>sessionStart\<close>, \<^verbatim>\<open>isActive\<close>, \<^verbatim>\<open>totalDuration\<close> (the first file of
    \<^verbatim>\<open>src/unnamed/part_008\<close>, required as \<^verbatim>\<open>../models/CursorLog\<close>) and the HTTP routes
    of \<^verbatim>\<open>backend/routes/cursor.js\<close>;
  \<^item> \<^verbatim>\<open>event-analytics-dashboard/backend/\<close>: the model \<^verbatim>\<open>CursorLog\<close> with the nested
    \<^verbatim>\<open>sessionMetrics\<close> and \<^verbatim>\<open>heatmapData\<close> (the second file of
    \<^verbatim>\<open>src/unnamed/part_003\<close>), the routes of \<^verbatim>\<open>routes/cursorRoutes.js\<close> and the socket
    handlers of \<^verbatim>\<open>sockets/cursorSocket.js\<close>.

  Both are embedded here. Names are those of the source. Where the two applications use
  the same name, the definitions of the dashboard application carry the prefix \<open>d_\<close>
  (fields) or the suffix \<open>_d\<close> (functions); nested fields are written with their path
  (\<^verbatim>\<open>sessionMetrics.isActive\<close> is \<open>sessionMetrics_isActive\<close>).

  Time is the number of milliseconds since the epoch, an \<open>int\<close>, as \<^verbatim>\<open>Date\<close> holds it.
  Every \<^verbatim>\<open>new Date()\<close> of one handler invocation reads the same clock value \<open>now\<close>,
  which is an argument of the handler. JavaScript numbers are rationals (coordinates,
  depths) or integers (durations): rounding errors of doubles are not modelled.
  An id (of an event, a session, a socket, a user) is a string; the casts of Mongoose
  between strings and \<^verbatim>\<open>ObjectId\<close> are not modelled.
  A collection of MongoDB is the list of its documents in insertion order; a document's
  index in the list is its \<^verbatim>\<open>_id\<close>. \<^verbatim>\<open>findOne\<close> returns the first document that
  matches, \<^verbatim>\<open>save\<close> writes a document back at its index. The store does not fail: the
  \<^verbatim>\<open>catch\<close> blocks of the handlers, reached only when an \<^verbatim>\<open>await\<close> on the store
  rejects, have no counterpart. Each handler runs as one atomic step.
\<close>

type_synonym time = int

text \<open>An object the code only stores and passes on (\<^verbatim>\<open>deviceInfo\<close>, \<^verbatim>\<open>location\<close>,
  \<^verbatim>\<open>metadata\<close>): its fields and their values. An object is always truthy.\<close>

type_synonym obj = "(string \<times> string) list"

text \<open>Truthiness of an optional string: \<^verbatim>\<open>undefined\<close>, \<^verbatim>\<open>null\<close> and \<^verbatim>\<open>''\<close> are falsy.\<close>

fun truthy :: "string option \<Rightarrow> bool" where
  "truthy None = False"
| "truthy (Some s) = (s \<noteq> [])"

text \<open>\<^verbatim>\<open>Model.findOne(cond)\<close>: the index of the first document that satisfies \<open>cond\<close>.\<close>

fun findOne :: "('a \<Rightarrow> bool) \<Rightarrow> 'a list \<Rightarrow> nat option" where
  "findOne cond [] = None"
| "findOne cond (r # rs) =
     (if cond r then Some 0 else map_option Suc (findOne cond rs))"

section \<open>The backend application\<close>

subsection \<open>The model CursorLog of the backend (src/unnamed/part_008)\<close>

datatype cursorSample = CursorSample
  (cs_x: rat) (cs_y: rat) (cs_timestamp: time) (cs_element: "string option") (cs_action: string)

datatype pageView = PageView
  (pv_page: string) (pv_timestamp: time) (pv_duration: "int option")

datatype interaction = Interaction
  (in_type: string) (in_target: string) (in_timestamp: time) (in_metadata: obj)

record CursorLog =
  eventId :: string
  userId :: string
  sessionId :: string
  userAgent :: "string option"
  ipAddress :: "string option"
  cursorData :: "cursorSample list"
  pageViews :: "pageView list"
  interactions :: "interaction list"
  sessionStart :: "time option"
  sessionEnd :: "time option"
  totalDuration :: "int option"
  isActive :: bool
  deviceInfo :: "obj option"
  location :: "obj option"

text \<open>\<^verbatim>\<open>Math.round(d / 1000)\<close> for an integer number \<open>d\<close> of milliseconds: JavaScript
  rounds a half towards plus infinity.\<close>

definition round_seconds :: "int \<Rightarrow> int" where
  "round_seconds d = (d + 500) div 1000"

text \<open>The virtual \<^verbatim>\<open>sessionDuration\<close>. A \<^verbatim>\<open>Date\<close> is truthy when it is set;
  \<^verbatim>\<open>this.totalDuration || 0\<close> is 0 when the duration is unset or 0.\<close>

definition sessionDuration :: "CursorLog \<Rightarrow> int" where
  "sessionDuration l =
     (case (sessionEnd l, sessionStart l) of
        (Some e, Some s) \<Rightarrow> round_seconds (e - s)
      | _ \<Rightarrow> (case totalDuration l of None \<Rightarrow> 0 | Some t \<Rightarrow> t))"

text \<open>\<^verbatim>\<open>slice(-1000)\<close>: the last 1000 elements (all of them when there are fewer).\<close>

definition slice_last :: "nat \<Rightarrow> 'a list \<Rightarrow> 'a list" where
  "slice_last n xs = drop (length xs - n) xs"

definition addCursorMovement ::
  "rat \<Rightarrow> rat \<Rightarrow> string \<Rightarrow> string option \<Rightarrow> time \<Rightarrow> CursorLog \<Rightarrow> CursorLog" where
  "addCursorMovement x y action element now l =
     (let pushed = cursorData l @ [CursorSample x y now element action]
      in l\<lparr>cursorData := (if length pushed > 1000 then slice_last 1000 pushed else pushed)\<rparr>)"


definition endSession :: "time \<Rightarrow> CursorLog \<Rightarrow> CursorLog" where
  "endSession now l =
     (let l1 = l\<lparr>sessionEnd := Some now\<rparr>;
          l2 = l1\<lparr>isActive := False\<rparr>
      in l2\<lparr>totalDuration := Some (sessionDuration l2)\<rparr>)"

text \<open>\<^verbatim>\<open>new CursorLog({eventId, userId, sessionId, userAgent, ipAddress, deviceInfo,
  location})\<close> with the defaults of the schema.\<close>

definition new_CursorLog ::
  "string \<Rightarrow> string \<Rightarrow> string \<Rightarrow> string option \<Rightarrow> string option \<Rightarrow> obj option \<Rightarrow> obj option
     \<Rightarrow> time \<Rightarrow> CursorLog" where
  "new_CursorLog e u s ua ip dev loc now =
     \<lparr>eventId = e, userId = u, sessionId = s, userAgent = ua, ipAddress = ip,
      cursorData = [], pageViews = [], interactions = [],
      sessionStart = Some now, sessionEnd = None, totalDuration = None, isActive = True,
      deviceInfo = dev, location = loc\<rparr>"

subsection \<open>backend/routes/cursor.js\<close>

text \<open>The event collection, as far as the routes read it: \<^verbatim>\<open>Event.findById\<close> and the
  event's \<^verbatim>\<open>isPublic\<close>.\<close>

type_synonym events = "string \<Rightarrow> bool option"

text \<open>A response: the HTTP status and the JSON body.\<close>

datatype body =
    Errors "string list"
  | Error string
  | Message string
  | MessageSession string string
  | MessageDuration string "int option"

datatype response = Response (status: nat) (body: body)

text \<open>The request body of \<^verbatim>\<open>POST /start-session\<close>. \<open>rq_errors\<close> is what
  express-validator's \<^verbatim>\<open>validationResult(req)\<close> holds for the request.\<close>

record startRequest =
  rq_errors :: "string list"
  rq_eventId :: string
  rq_userId :: string
  rq_sessionId :: string
  rq_userAgent :: "string option"
  rq_ipAddress :: "string option"
  rq_deviceInfo :: "obj option"
  rq_location :: "obj option"

text \<open>The update of an existing document in \<^verbatim>\<open>/start-session\<close>.\<close>

definition resume :: "startRequest \<Rightarrow> time \<Rightarrow> CursorLog \<Rightarrow> CursorLog" where
  "resume rq now l =
     (let l1 = l\<lparr>isActive := True, sessionStart := Some now, sessionEnd := None,
                 totalDuration := None\<rparr>;
          l2 = (if truthy (rq_userAgent rq) then l1\<lparr>userAgent := rq_userAgent rq\<rparr> else l1);
          l3 = (if truthy (rq_ipAddress rq) then l2\<lparr>ipAddress := rq_ipAddress rq\<rparr> else l2);
          l4 = (if rq_deviceInfo rq \<noteq> None then l3\<lparr>deviceInfo := rq_deviceInfo rq\<rparr> else l3)
      in (if rq_location rq \<noteq> None then l4\<lparr>location := rq_location rq\<rparr> else l4))"

definition start_session ::
  "events \<Rightarrow> startRequest \<Rightarrow> time \<Rightarrow> CursorLog list \<Rightarrow> response \<times> CursorLog list" where
  "start_session ev rq now db =
     (if rq_errors rq \<noteq> [] then (Response 400 (Errors (rq_errors rq)), db)
      else case ev (rq_eventId rq) of
        None \<Rightarrow> (Response 404 (Error ''Event not found''), db)
      | Some isPublic \<Rightarrow>
          if \<not> isPublic then (Response 403 (Error ''Event is not public''), db)
          else
           (case findOne (\<lambda>l. eventId l = rq_eventId rq \<and> sessionId l = rq_sessionId rq) db of
              Some i \<Rightarrow>
                (Response 200
                   (MessageSession ''Session resumed successfully'' (sessionId (db ! i))),
                 db[i := resume rq now (db ! i)])
            | None \<Rightarrow>
                (Response 201
                   (MessageSession ''Session started successfully'' (rq_sessionId rq)),
                 db @ [new_CursorLog (rq_eventId rq) (rq_userId rq) (rq_sessionId rq)
                         (rq_userAgent rq) (rq_ipAddress rq) (rq_deviceInfo rq)
                         (rq_location rq) now])))"

text \<open>The four routes that look the active session up share their beginning: the
  validation errors, then \<^verbatim>\<open>findOne({eventId, sessionId, isActive: true})\<close>, then 404.\<close>

definition active_session :: "string \<Rightarrow> string \<Rightarrow> CursorLog \<Rightarrow> bool" where
  "active_session e s l = (eventId l = e \<and> sessionId l = s \<and> isActive l)"

definition on_active ::
  "string list \<Rightarrow> string \<Rightarrow> string \<Rightarrow> (CursorLog \<Rightarrow> CursorLog) \<Rightarrow> (CursorLog \<Rightarrow> body)
     \<Rightarrow> CursorLog list \<Rightarrow> response \<times> CursorLog list" where
  "on_active errors e s change reply db =
     (if errors \<noteq> [] then (Response 400 (Errors errors), db)
      else case findOne (active_session e s) db of
        None \<Rightarrow> (Response 404 (Error ''Active session not found''), db)
      | Some i \<Rightarrow> (Response 200 (reply (change (db ! i))), db[i := change (db ! i)]))"




definition end_session ::
  "string list \<Rightarrow> string \<Rightarrow> string \<Rightarrow> time \<Rightarrow> CursorLog list \<Rightarrow> response \<times> CursorLog list" where
  "end_session errors e s now =
     on_active errors e s (endSession now)
       (\<lambda>l. MessageDuration ''Session ended successfully'' (totalDuration l))"




section \<open>The dashboard application\<close>

subsection \<open>The model CursorLog of the dashboard (src/unnamed/part_003)\<close>

text \<open>Schema validation on save is not modelled: the values handed to the model are taken
  to satisfy the schema (coordinates that are not negative, a page that is present).\<close>

datatype cursorSample_d = CursorSample_d
  (csd_x: rat) (csd_y: rat) (csd_page: string) (csd_element: "string option")
  (csd_action: string) (csd_timestamp: time)

datatype click = Click (click_x: rat) (click_y: rat) (click_page: string) (click_timestamp: time)

datatype hover = Hover
  (hover_x: rat) (hover_y: rat) (hover_duration: rat) (hover_page: string) (hover_timestamp: time)

datatype scrollEntry = ScrollEntry (se_page: string) (maxDepth: rat) (se_timestamp: time)

datatype pageVisit = PageVisit (pgv_page: string) (timeSpent: rat) (visitedAt: time)

record CursorLog_d =
  d_sessionId :: string
  d_userId :: "string option"
  d_eventId :: string
  d_userAgent :: "string option"
  d_ipAddress :: "string option"
  d_location :: "obj option"
  device :: "obj option"
  d_cursorData :: "cursorSample_d list"
  sessionMetrics_startTime :: "time option"
  sessionMetrics_endTime :: "time option"
  sessionMetrics_duration :: int
  sessionMetrics_totalClicks :: int
  sessionMetrics_totalScrolls :: int
  sessionMetrics_pagesVisited :: "pageVisit list"
  sessionMetrics_isActive :: bool
  sessionMetrics_lastActivity :: time
  heatmapData_clicks :: "click list"
  heatmapData_hovers :: "hover list"
  heatmapData_scrollDepth :: "scrollEntry list"
  isDeleted :: bool
  createdAt :: time

text \<open>\<^verbatim>\<open>addCursorMovement(x, y, page, element = null, action = 'move')\<close>: the sample is
  pushed and nothing is removed.\<close>

definition addCursorMovement_d ::
  "rat \<Rightarrow> rat \<Rightarrow> string \<Rightarrow> string option \<Rightarrow> string \<Rightarrow> time \<Rightarrow> CursorLog_d \<Rightarrow> CursorLog_d" where
  "addCursorMovement_d x y page element action now l =
     (let l1 = l\<lparr>d_cursorData := d_cursorData l @ [CursorSample_d x y page element action now]\<rparr>;
          l2 = l1\<lparr>sessionMetrics_lastActivity := now\<rparr>;
          l3 = (if action = ''click''
                then l2\<lparr>sessionMetrics_totalClicks := sessionMetrics_totalClicks l2 + 1,
                        heatmapData_clicks := heatmapData_clicks l2 @ [Click x y page now]\<rparr>
                else l2)
      in (if action = ''scroll''
          then l3\<lparr>sessionMetrics_totalScrolls := sessionMetrics_totalScrolls l3 + 1\<rparr>
          else l3))"


text \<open>\<^verbatim>\<open>updateScrollDepth(page, depth)\<close> on the array \<^verbatim>\<open>heatmapData.scrollDepth\<close>, and on
  the document.\<close>

definition scrollDepth_update :: "string \<Rightarrow> rat \<Rightarrow> time \<Rightarrow> scrollEntry list \<Rightarrow> scrollEntry list" where
  "scrollDepth_update page depth now sds =
     (case findOne (\<lambda>s. se_page s = page) sds of
        Some i \<Rightarrow>
          (if depth > maxDepth (sds ! i)
           then sds[i := ScrollEntry (se_page (sds ! i)) depth now]
           else sds)
      | None \<Rightarrow> sds @ [ScrollEntry page depth now])"

definition updateScrollDepth :: "string \<Rightarrow> rat \<Rightarrow> time \<Rightarrow> CursorLog_d \<Rightarrow> CursorLog_d" where
  "updateScrollDepth page depth now l =
     l\<lparr>heatmapData_scrollDepth := scrollDepth_update page depth now (heatmapData_scrollDepth l)\<rparr>"

text \<open>\<^verbatim>\<open>endSession()\<close>: \<^verbatim>\<open>Math.floor\<close> of the difference in seconds; the duration is
  only written when \<^verbatim>\<open>startTime\<close> is set.\<close>

definition endSession_d :: "time \<Rightarrow> CursorLog_d \<Rightarrow> CursorLog_d" where
  "endSession_d now l =
     (let l1 = l\<lparr>sessionMetrics_endTime := Some now, sessionMetrics_isActive := False\<rparr>
      in case sessionMetrics_startTime l1 of
           Some st \<Rightarrow> l1\<lparr>sessionMetrics_duration := (now - st) div 1000\<rparr>
         | None \<Rightarrow> l1)"


text \<open>\<^verbatim>\<open>CursorLog.create({sessionId, userId, eventId, userAgent, ipAddress, location,
  device, sessionMetrics: {startTime, isActive: true, lastActivity}})\<close> with the defaults of
  the schema.\<close>

definition create_d ::
  "string \<Rightarrow> string option \<Rightarrow> string \<Rightarrow> string option \<Rightarrow> string option \<Rightarrow> obj option \<Rightarrow> obj option
     \<Rightarrow> time \<Rightarrow> CursorLog_d" where
  "create_d s u e ua ip loc dev now =
     \<lparr>d_sessionId = s, d_userId = u, d_eventId = e, d_userAgent = ua, d_ipAddress = ip,
      d_location = loc, device = dev, d_cursorData = [],
      sessionMetrics_startTime = Some now, sessionMetrics_endTime = None,
      sessionMetrics_duration = 0, sessionMetrics_totalClicks = 0,
      sessionMetrics_totalScrolls = 0, sessionMetrics_pagesVisited = [],
      sessionMetrics_isActive = True, sessionMetrics_lastActivity = now,
      heatmapData_clicks = [], heatmapData_hovers = [], heatmapData_scrollDepth = [],
      isDeleted = False, createdAt = now\<rparr>"

text \<open>The query \<^verbatim>\<open>{sessionId, eventId, 'sessionMetrics.isActive': true}\<close>.\<close>

definition active_session_d :: "string \<Rightarrow> string \<Rightarrow> CursorLog_d \<Rightarrow> bool" where
  "active_session_d s e l = (d_sessionId l = s \<and> d_eventId l = e \<and> sessionMetrics_isActive l)"

subsubsection \<open>The static getHeatmapData\<close>

text \<open>The \<^verbatim>\<open>$match\<close> stage. A condition on \<^verbatim>\<open>'heatmapData.clicks.page'\<close> holds for a
  document when one element of the array has that page. The dates are the parsed
  \<^verbatim>\<open>startDate\<close> and \<^verbatim>\<open>endDate\<close>, when given.\<close>

definition matchConditions ::
  "string \<Rightarrow> string option \<Rightarrow> time option \<Rightarrow> time option \<Rightarrow> CursorLog_d \<Rightarrow> bool" where
  "matchConditions e page startDate endDate l =
     (d_eventId l = e \<and> isDeleted l = False \<and>
      (if truthy page then the page \<in> set (map click_page (heatmapData_clicks l)) else True) \<and>
      (case startDate of None \<Rightarrow> True | Some t \<Rightarrow> t \<le> createdAt l) \<and>
      (case endDate of None \<Rightarrow> True | Some t \<Rightarrow> createdAt l \<le> t))"

text \<open>The \<^verbatim>\<open>_id\<close> of the \<^verbatim>\<open>$group\<close> stage: the divisor 10 is a constant of the
  pipeline.\<close>

definition group_id :: "click \<Rightarrow> int \<times> int \<times> string" where
  "group_id c = (\<lfloor>click_x c / 10\<rfloor>, \<lfloor>click_y c / 10\<rfloor>, click_page c)"

datatype bucket = Bucket
  (bucket_id: "int \<times> int \<times> string") (count: nat) (avgX: rat) (avgY: rat)

text \<open>\<^verbatim>\<open>$avg\<close> of a group, which is never empty.\<close>

definition avg :: "rat list \<Rightarrow> rat" where
  "avg xs = sum_list xs / of_nat (length xs)"

text \<open>The \<^verbatim>\<open>$group\<close> stage. MongoDB leaves the order of the groups open; here they stand
  in the order in which their first click appears.\<close>

definition first_occurrences :: "'a list \<Rightarrow> 'a list" where
  "first_occurrences ks = rev (remdups (rev ks))"

definition group_clicks :: "click list \<Rightarrow> bucket list" where
  "group_clicks cs =
     map (\<lambda>k. let g = filter (\<lambda>c. group_id c = k) cs
              in Bucket k (length g) (avg (map click_x g)) (avg (map click_y g)))
       (first_occurrences (map group_id cs))"

text \<open>\<^verbatim>\<open>{ $sort: { count: -1 } }\<close>, as a stable sort.\<close>

definition sort_count :: "bucket list \<Rightarrow> bucket list" where
  "sort_count bs = sort_key (\<lambda>b. - int (count b)) bs"

definition CursorLog_getHeatmapData ::
  "string \<Rightarrow> string option \<Rightarrow> time option \<Rightarrow> time option \<Rightarrow> CursorLog_d list \<Rightarrow> bucket list" where
  "CursorLog_getHeatmapData e page startDate endDate db =
     sort_count (group_clicks (concat (map heatmapData_clicks
       (filter (matchConditions e page startDate endDate) db))))"

subsection \<open>event-analytics-dashboard/backend/routes/cursorRoutes.js\<close>

datatype heatPoint = HeatPoint
  (hp_x: rat) (hp_y: rat) (hp_value: nat) (hp_page: string) (gridX: int) (gridY: int)

datatype heatmapResponse = HeatmapResponse
  (heatmap: "heatPoint list") (resolution: int) (totalPoints: nat)

text \<open>\<^verbatim>\<open>getHeatmapData\<close>: \<open>res\<close> is \<^verbatim>\<open>parseInt(resolution)\<close> of the query, when the query
  has one; the default is 10.\<close>

definition getHeatmapData ::
  "string \<Rightarrow> string option \<Rightarrow> time option \<Rightarrow> time option \<Rightarrow> int option \<Rightarrow> CursorLog_d list
     \<Rightarrow> heatmapResponse" where
  "getHeatmapData e page startDate endDate res db =
     (let resolution = (case res of None \<Rightarrow> 10 | Some r \<Rightarrow> r);
          processedData =
            map (\<lambda>item. HeatPoint (avgX item) (avgY item) (count item) (snd (snd (bucket_id item)))
                          (fst (bucket_id item) * resolution)
                          (fst (snd (bucket_id item)) * resolution))
              (CursorLog_getHeatmapData e page startDate endDate db)
      in HeatmapResponse processedData resolution (length processedData))"



text \<open>\<^verbatim>\<open>{...device, screenResolution}\<close>.\<close>

definition spread_device :: "obj option \<Rightarrow> string option \<Rightarrow> obj option" where
  "spread_device dev sr =
     Some ((case dev of None \<Rightarrow> [] | Some d \<Rightarrow> filter (\<lambda>f. fst f \<noteq> ''screenResolution'') d)
           @ (case sr of None \<Rightarrow> [] | Some r \<Rightarrow> [(''screenResolution'', r)]))"


subsection \<open>event-analytics-dashboard/backend/sockets/cursorSocket.js\<close>

text \<open>
  The state of the server process:
  \<^item> \<open>closures\<close>: the object \<^verbatim>\<open>sessionData\<close> of every connected socket, which the
    handlers of that socket share; a socket that is not connected has none;
  \<^item> \<open>activeSessions\<close>: the keys of the \<^verbatim>\<open>Map\<close> of that name, in insertion order. The
    value under a key is the object \<^verbatim>\<open>sessionData\<close> of that socket itself (the map and
    the handlers alias it), so it is read through \<open>closures\<close>;
  \<^item> \<open>rooms\<close>: the members of every socket.io room. Only the rooms \<^verbatim>\<open>event-...\<close>
    that the handlers join are kept;
  \<^item> \<open>cursorLogs\<close>: the collection of the model;
  \<^item> \<open>emitted\<close>: every message sent so far, oldest first, with the sockets it went to.
\<close>

datatype userInfo = UserInfo (ui_name: string) (ui_email: string) (ui_avatar: "string option")

record user =
  user_id :: string
  fullName :: string
  email :: string
  avatar :: "string option"

record sessionData =
  socketId :: string
  sd_userId :: "string option"
  userInfo :: "userInfo option"
  connectedAt :: time
  currentEvent :: "string option"
  lastActivity :: time

datatype payload =
    ErrorMessage string
  | UserLeft string "userInfo option"
  | UserJoined string "userInfo option" time
  | ActiveUsers "(string \<times> userInfo option \<times> time) list"
  | JoinedEvent string string nat
  | CursorUpdate string "userInfo option" rat rat string "string option" time

datatype emission = Emit (em_recipients: "string set") (em_event: string) (em_payload: payload)

record server =
  closures :: "string \<Rightarrow> sessionData option"
  activeSessions :: "string list"
  rooms :: "string \<Rightarrow> string set"
  cursorLogs :: "CursorLog_d list"
  emitted :: "emission list"


definition room :: "string \<Rightarrow> string" where
  "room e = ''event-'' @ e"

text \<open>\<^verbatim>\<open>socket.emit\<close> sends to the socket, \<^verbatim>\<open>socket.to(r).emit\<close> to the members of
  \<open>r\<close> but the socket, \<^verbatim>\<open>io.to(r).emit\<close> to every member of \<open>r\<close>.\<close>

definition emit :: "string set \<Rightarrow> string \<Rightarrow> payload \<Rightarrow> server \<Rightarrow> server" where
  "emit to name p st = st\<lparr>emitted := emitted st @ [Emit to name p]\<rparr>"


definition io_to :: "string \<Rightarrow> server \<Rightarrow> string set" where
  "io_to r st = rooms st r"




text \<open>The data of \<^verbatim>\<open>join-event\<close>; \<open>jd_address\<close> is \<^verbatim>\<open>socket.handshake.address\<close>.\<close>

record joinData =
  jd_eventId :: "string option"
  jd_userAgent :: "string option"
  jd_screenResolution :: "string option"
  jd_location :: "obj option"
  jd_address :: "string option"

definition leave_room :: "string \<Rightarrow> string \<Rightarrow> server \<Rightarrow> server" where
  "leave_room sid r st = st\<lparr>rooms := (rooms st)(r := rooms st r - {sid})\<rparr>"

definition join_room :: "string \<Rightarrow> string \<Rightarrow> server \<Rightarrow> server" where
  "join_room sid r st = st\<lparr>rooms := (rooms st)(r := insert sid (rooms st r))\<rparr>"


text \<open>The part "create or update cursor log session" of \<^verbatim>\<open>join-event\<close>: a document
  is created when the socket has no active one for the event.\<close>

definition find_or_create ::
  "string \<Rightarrow> string option \<Rightarrow> string \<Rightarrow> joinData \<Rightarrow> time \<Rightarrow> server \<Rightarrow> server" where
  "find_or_create sid uid e data now st =
     (case findOne (active_session_d sid e) (cursorLogs st) of
        Some i \<Rightarrow> st
      | None \<Rightarrow>
          st\<lparr>cursorLogs := cursorLogs st @
                [create_d sid uid e (jd_userAgent data) (jd_address data) (jd_location data)
                   (spread_device None (jd_screenResolution data)) now]\<rparr>)"



definition touch :: "string \<Rightarrow> sessionData \<Rightarrow> time \<Rightarrow> server \<Rightarrow> server" where
  "touch sid sessionData now st =
     st\<lparr>closures := (closures st)(sid \<mapsto> sessionData\<lparr>lastActivity := now\<rparr>)\<rparr>"

text \<open>\<^verbatim>\<open>findOne({sessionId, eventId, 'sessionMetrics.isActive': true})\<close>, then a method of
  the document when there is one; the method saves.\<close>

definition log_active ::
  "string \<Rightarrow> string \<Rightarrow> (CursorLog_d \<Rightarrow> CursorLog_d) \<Rightarrow> server \<Rightarrow> server" where
  "log_active s e change st =
     (case findOne (active_session_d s e) (cursorLogs st) of
        None \<Rightarrow> st
      | Some i \<Rightarrow> st\<lparr>cursorLogs := (cursorLogs st)[i := change (cursorLogs st ! i)]\<rparr>)"







text \<open>The periodic cleanup. \<open>cleanup_entry\<close> is the body of the loop for one entry of the
  map; the loop visits the keys in insertion order, and a step deletes its own key only.\<close>

definition inactiveThreshold :: int where
  "inactiveThreshold = 5 * 60 * 1000"

definition cleanup_entry :: "time \<Rightarrow> string \<Rightarrow> server \<Rightarrow> server" where
  "cleanup_entry now sid st =
     (case closures st sid of
        None \<Rightarrow> st
      | Some session \<Rightarrow>
          if now - lastActivity session > inactiveThreshold
          then
            (let st1 = (if truthy (currentEvent session)
                        then
                          (let e = the (currentEvent session) in
                           log_active sid e (endSession_d now)
                             (emit (io_to (room e) st) ''user-left''
                                (UserLeft sid (userInfo session)) st))
                        else st)
             in st1\<lparr>activeSessions := removeAll sid (activeSessions st1)\<rparr>)
          else st)"

fun cleanup_loop :: "time \<Rightarrow> string list \<Rightarrow> server \<Rightarrow> server" where
  "cleanup_loop now [] st = st"
| "cleanup_loop now (sid # sids) st = cleanup_loop now sids (cleanup_entry now sid st)"

definition cleanup :: "time \<Rightarrow> server \<Rightarrow> server" where
  "cleanup now st = cleanup_loop now (activeSessions st) st"





section \<open>Predicates and example inputs of the properties\<close>





text \<open>A sequence of calls of \<^verbatim>\<open>addCursorMovement\<close> of the backend model on one document,
  oldest first, and the samples they push.\<close>

fun sample_of :: "rat \<times> rat \<times> string \<times> string option \<times> time \<Rightarrow> cursorSample" where
  "sample_of (x, y, action, element, now) = CursorSample x y now element action"

fun addCursorMovements ::
  "(rat \<times> rat \<times> string \<times> string option \<times> time) list \<Rightarrow> CursorLog \<Rightarrow> CursorLog" where
  "addCursorMovements [] l = l"
| "addCursorMovements ((x, y, action, element, now) # ms) l =
     addCursorMovements ms (addCursorMovement x y action element now l)"

text \<open>The depth stored for a page: \<^verbatim>\<open>maxDepth\<close> of the entry that
  \<^verbatim>\<open>scrollDepth.find(s => s.page === page)\<close> returns. A sequence of calls of
  \<^verbatim>\<open>updateScrollDepth\<close> on one document, oldest first.\<close>

definition stored_depth :: "string \<Rightarrow> scrollEntry list \<Rightarrow> rat option" where
  "stored_depth page sds =
     map_option (\<lambda>i. maxDepth (sds ! i)) (findOne (\<lambda>s. se_page s = page) sds)"

fun updateScrollDepths :: "(string \<times> rat \<times> time) list \<Rightarrow> CursorLog_d \<Rightarrow> CursorLog_d" where
  "updateScrollDepths [] l = l"
| "updateScrollDepths ((page, depth, now) # us) l =
     updateScrollDepths us (updateScrollDepth page depth now l)"

text \<open>The clicks that the heatmap query reads when it is given the page \<open>p\<close>: all clicks
  of the documents that pass the other conditions and have a click on \<open>p\<close>.\<close>

definition selected_clicks ::
  "string \<Rightarrow> string \<Rightarrow> time option \<Rightarrow> time option \<Rightarrow> CursorLog_d list \<Rightarrow> click list" where
  "selected_clicks e p startDate endDate db =
     concat (map heatmapData_clicks
       (filter (\<lambda>l. matchConditions e None startDate endDate l \<and>
                    p \<in> set (map click_page (heatmapData_clicks l))) db))"

text \<open>States of the server in which a socket is only in the room of the event that its
  \<^verbatim>\<open>sessionData.currentEvent\<close> names; the events of the connected sockets; the entries
  of the map that the cleanup at time \<open>now\<close> finds inactive.\<close>

definition rooms_ok :: "server \<Rightarrow> bool" where
  "rooms_ok st =
     (\<forall>sid r. sid \<in> rooms st r \<longrightarrow>
        (\<exists>sd. closures st sid = Some sd \<and> truthy (currentEvent sd) \<and>
              r = room (the (currentEvent sd))))"

definition events_of :: "server \<Rightarrow> string \<Rightarrow> string option option" where
  "events_of st = (\<lambda>k. map_option currentEvent (closures st k))"

definition stale :: "time \<Rightarrow> server \<Rightarrow> string \<Rightarrow> bool" where
  "stale now st k =
     (case closures st k of None \<Rightarrow> False
      | Some session \<Rightarrow> now - lastActivity session > inactiveThreshold)"

text \<open>Inputs on which the properties are instantiated.\<close>

text \<open>Ids of events, written as MongoDB writes an \<^verbatim>\<open>ObjectId\<close>.\<close>

abbreviation event1 :: string where
  "event1 \<equiv> ''507f1f77bcf86cd799439011''"



definition example_request :: startRequest where
  "example_request =
     \<lparr>rq_errors = [], rq_eventId = event1, rq_userId = ''u1'', rq_sessionId = ''s1'',
      rq_userAgent = Some ''Mozilla'', rq_ipAddress = None, rq_deviceInfo = None,
      rq_location = None\<rparr>"

definition example_events :: events where
  "example_events = (\<lambda>e. if e = event1 then Some True else None)"



definition example_log :: CursorLog where
  "example_log =
     \<lparr>eventId = event1, userId = ''u1'', sessionId = ''s1'', userAgent = None, ipAddress = None,
      cursorData = [CursorSample 100 200 5 (Some ''body'') ''move''],
      pageViews = [PageView ''home'' 6 (Some 120)],
      interactions = [Interaction ''scroll'' ''page'' 7 []],
      sessionStart = Some 0, sessionEnd = Some 9000, totalDuration = Some 9, isActive = False,
      deviceInfo = None, location = None\<rparr>"

definition example_active :: CursorLog where
  "example_active = new_CursorLog event1 ''u1'' ''s1'' None None None None 0"

definition example_session :: CursorLog_d where
  "example_session = create_d ''s1'' None event1 None None None None 0"

definition example_scrolled :: CursorLog_d where
  "example_scrolled = updateScrollDepth ''home'' 30 1 example_session"

definition example_two_pages :: CursorLog_d where
  "example_two_pages =
     example_session\<lparr>heatmapData_clicks := [Click 12 18 ''home'' 1, Click 300 40 ''about'' 2]\<rparr>"

definition example_other_page :: CursorLog_d where
  "example_other_page =
     example_session\<lparr>d_sessionId := ''s2'', heatmapData_clicks := [Click 7 7 ''about'' 3]\<rparr>"



section \<open>Lists and findOne\<close>

lemma findOne_Some: "findOne P xs = Some i \<Longrightarrow> i < length xs \<and> P (xs ! i)"
  by (induction xs arbitrary: i) (auto split: if_splits)

lemma findOne_None: "findOne P xs = None \<longleftrightarrow> filter P xs = []"
  by (induction xs) auto


lemma findOne_closed:
  "findOne P xs = Some i \<Longrightarrow> length (filter P xs) \<le> 1 \<Longrightarrow> \<not> P y \<Longrightarrow> findOne P (xs[i := y]) = None"
proof (induction xs arbitrary: i)
  case Nil
  then show ?case by simp
next
  case (Cons x xs)
  then show ?case by (cases i) (auto split: if_splits simp: findOne_None)
qed

lemma map_update_same: "i < length xs \<Longrightarrow> f y = f (xs ! i) \<Longrightarrow> map f (xs[i := y]) = map f xs"
  by (simp add: map_update list_update_same_conv)

lemma distinct_filter_le1: "distinct (map f xs) \<Longrightarrow> length (filter (\<lambda>x. f x = k) xs) \<le> 1"
proof (induction xs)
  case Nil
  then show ?case by simp
next
  case (Cons x xs)
  have "filter (\<lambda>x. f x = k) xs = []" if "f x = k"
  proof -
    have "\<forall>z\<in>set xs. f z \<noteq> k"
      using Cons.prems that by (auto simp: image_iff)
    then show ?thesis by (simp add: filter_empty_conv)
  qed
  with Cons show ?case by auto
qed


section \<open>C1: one active session per pair\<close>


















lemma cursorLogs_emit [simp]: "cursorLogs (emit to name p st) = cursorLogs st"
  by (simp add: emit_def)

lemma cursorLogs_touch [simp]: "cursorLogs (touch sid sd now st) = cursorLogs st"
  by (simp add: touch_def)

lemma cursorLogs_leave_room [simp]: "cursorLogs (leave_room sid r st) = cursorLogs st"
  by (simp add: leave_room_def)

lemma cursorLogs_join_room [simp]: "cursorLogs (join_room sid r st) = cursorLogs st"
  by (simp add: join_room_def)















section \<open>C9: what a resumed session keeps\<close>

text \<open>
  Claim C9. When \<^verbatim>\<open>/start-session\<close> finds a document for the pair of the request, active
  or closed, it answers "Session resumed successfully", sets \<^verbatim>\<open>sessionStart\<close> to the
  current time, clears \<^verbatim>\<open>sessionEnd\<close> and \<^verbatim>\<open>totalDuration\<close>, marks the document active
  and leaves \<^verbatim>\<open>cursorData\<close>, \<^verbatim>\<open>interactions\<close> and \<^verbatim>\<open>pageViews\<close> of the document, and
  every other document, as they were.
\<close>

theorem resume_resets_timing:
  assumes "rq_errors rq = []" and "ev (rq_eventId rq) = Some True"
    and "findOne (\<lambda>l. eventId l = rq_eventId rq \<and> sessionId l = rq_sessionId rq) db = Some i"
  shows "fst (start_session ev rq now db) =
           Response 200 (MessageSession ''Session resumed successfully'' (rq_sessionId rq)) \<and>
         length (snd (start_session ev rq now db)) = length db \<and>
         sessionStart (snd (start_session ev rq now db) ! i) = Some now \<and>
         sessionEnd (snd (start_session ev rq now db) ! i) = None \<and>
         totalDuration (snd (start_session ev rq now db) ! i) = None \<and>
         isActive (snd (start_session ev rq now db) ! i) \<and>
         cursorData (snd (start_session ev rq now db) ! i) = cursorData (db ! i) \<and>
         interactions (snd (start_session ev rq now db) ! i) = interactions (db ! i) \<and>
         pageViews (snd (start_session ev rq now db) ! i) = pageViews (db ! i) \<and>
         (\<forall>j. j \<noteq> i \<longrightarrow> snd (start_session ev rq now db) ! j = db ! j)"
proof -
  have i: "i < length db" "sessionId (db ! i) = rq_sessionId rq"
    using findOne_Some[OF assms(3)] by auto
  have s: "start_session ev rq now db =
      (Response 200 (MessageSession ''Session resumed successfully'' (rq_sessionId rq)),
       db[i := resume rq now (db ! i)])"
    using assms i by (simp add: start_session_def)
  show ?thesis using i(1) by (simp add: s resume_def Let_def)
qed

theorem resume_resets_timing_witness:
  "rq_errors example_request = [] \<and>
   example_events (rq_eventId example_request) = Some True \<and>
   findOne (\<lambda>l. eventId l = rq_eventId example_request \<and> sessionId l = rq_sessionId example_request)
     [example_log, example_log\<lparr>sessionId := ''s2''\<rparr>] = Some 0 \<and>
   isActive example_log = False \<and> sessionEnd example_log = Some 9000 \<and>
   totalDuration example_log = Some 9 \<and>
   sessionStart (snd (start_session example_events example_request 20000
       [example_log, example_log\<lparr>sessionId := ''s2''\<rparr>]) ! 0) = Some 20000 \<and>
   sessionEnd (snd (start_session example_events example_request 20000
       [example_log, example_log\<lparr>sessionId := ''s2''\<rparr>]) ! 0) = None \<and>
   totalDuration (snd (start_session example_events example_request 20000
       [example_log, example_log\<lparr>sessionId := ''s2''\<rparr>]) ! 0) = None \<and>
   cursorData (snd (start_session example_events example_request 20000
       [example_log, example_log\<lparr>sessionId := ''s2''\<rparr>]) ! 0) =
     [CursorSample 100 200 5 (Some ''body'') ''move''] \<and>
   snd (start_session example_events example_request 20000
       [example_log, example_log\<lparr>sessionId := ''s2''\<rparr>]) ! 1 =
     example_log\<lparr>sessionId := ''s2''\<rparr>"
proof -
  let ?db = "[example_log, example_log\<lparr>sessionId := ''s2''\<rparr>]"
  have h: "rq_errors example_request = []"
    "example_events (rq_eventId example_request) = Some True"
    "findOne (\<lambda>l. eventId l = rq_eventId example_request \<and> sessionId l = rq_sessionId example_request)
       ?db = Some 0"
    by (simp_all add: example_request_def example_events_def example_log_def)
  have l: "isActive example_log = False" "sessionEnd example_log = Some 9000"
    "totalDuration example_log = Some 9"
    "cursorData example_log = [CursorSample 100 200 5 (Some ''body'') ''move'']"
    by (simp_all add: example_log_def)
  note t = resume_resets_timing[where ev = example_events and rq = example_request
      and db = ?db and i = 0 and now = 20000, OF h]
  have "snd (start_session example_events example_request 20000 ?db) ! 1 = ?db ! 1"
    using t by (metis zero_neq_one)
  then show ?thesis using t h l by simp
qed

section \<open>C2: ending a session twice\<close>

lemma totalDuration_endSession:
  "totalDuration (endSession now l) =
     Some (case sessionStart l of Some t0 \<Rightarrow> round_seconds (now - t0)
           | None \<Rightarrow> (case totalDuration l of None \<Rightarrow> 0 | Some t \<Rightarrow> t))"
  by (simp add: endSession_def sessionDuration_def Let_def split: option.splits)

text \<open>
  Claim C2, as stated: a second call of the end-session operation, after the session is
  closed, reports success and the duration of the first call. On the route
  \<^verbatim>\<open>POST /end-session\<close> it does not: the first call answers 200 with the duration 5, the
  second one 404.
\<close>

theorem end_session_twice_counterexample:
  "fst (end_session [] event1 ''s1'' 5000 [example_active]) =
     Response 200 (MessageDuration ''Session ended successfully'' (Some 5)) \<and>
   fst (end_session [] event1 ''s1'' 6000
          (snd (end_session [] event1 ''s1'' 5000 [example_active]))) =
     Response 404 (Error ''Active session not found'')"
  by (simp add: end_session_def on_active_def active_session_def example_active_def new_CursorLog_def endSession_def
      sessionDuration_def round_seconds_def Let_def)

text \<open>
  Claim C2, amended. \<^verbatim>\<open>POST /end-session\<close> closes the active document of the pair and
  reports its duration, \<^verbatim>\<open>Math.round\<close> of the seconds since \<^verbatim>\<open>sessionStart\<close>. A call
  that finds no active document for the pair, in particular a second call after the
  session was closed, is answered 404 "Active session not found" and changes nothing: the
  duration stored by the first call stays. The method \<^verbatim>\<open>endSession\<close> of the dashboard
  model, which the handlers call on active documents only, computes \<^verbatim>\<open>Math.floor\<close> of
  the seconds since \<^verbatim>\<open>startTime\<close>; called again later it computes the duration anew
  from the later time.
\<close>

theorem end_session_closed_not_found:
  "(length (filter (active_session e s) db) \<le> 1 \<and> findOne (active_session e s) db = Some i \<longrightarrow>
      end_session [] e s now db =
        (Response 200 (MessageDuration ''Session ended successfully''
                         (totalDuration (endSession now (db ! i)))),
         db[i := endSession now (db ! i)]) \<and>
      isActive (endSession now (db ! i)) = False \<and>
      end_session [] e s later (snd (end_session [] e s now db)) =
        (Response 404 (Error ''Active session not found''), snd (end_session [] e s now db))) \<and>
   (findOne (active_session e s) db = None \<longrightarrow>
      end_session [] e s now db = (Response 404 (Error ''Active session not found''), db)) \<and>
   (sessionStart l = Some t0 \<longrightarrow>
      totalDuration (endSession now l) = Some (round_seconds (now - t0))) \<and>
   (sessionMetrics_startTime d = Some t0 \<longrightarrow>
      sessionMetrics_duration (endSession_d now d) = (now - t0) div 1000 \<and>
      sessionMetrics_duration (endSession_d later (endSession_d now d)) = (later - t0) div 1000)"
proof (intro conjI impI)
  assume a: "length (filter (active_session e s) db) \<le> 1 \<and> findOne (active_session e s) db = Some i"
  then have f: "findOne (active_session e s) db = Some i" by simp
  show first: "end_session [] e s now db =
        (Response 200 (MessageDuration ''Session ended successfully''
                         (totalDuration (endSession now (db ! i)))),
         db[i := endSession now (db ! i)])"
    using f by (simp add: end_session_def on_active_def)
  show closed: "isActive (endSession now (db ! i)) = False"
    by (simp add: endSession_def Let_def)
  then have "\<not> active_session e s (endSession now (db ! i))"
    by (simp add: active_session_def)
  with a have "findOne (active_session e s) (db[i := endSession now (db ! i)]) = None"
    by (intro findOne_closed) auto
  then show "end_session [] e s later (snd (end_session [] e s now db)) =
        (Response 404 (Error ''Active session not found''), snd (end_session [] e s now db))"
    by (simp add: first) (simp add: end_session_def on_active_def)
next
  assume "findOne (active_session e s) db = None"
  then show "end_session [] e s now db = (Response 404 (Error ''Active session not found''), db)"
    by (simp add: end_session_def on_active_def)
next
  assume "sessionStart l = Some t0"
  then show "totalDuration (endSession now l) = Some (round_seconds (now - t0))"
    by (simp add: totalDuration_endSession)
next
  assume d: "sessionMetrics_startTime d = Some t0"
  then show "sessionMetrics_duration (endSession_d now d) = (now - t0) div 1000"
    by (simp add: endSession_d_def Let_def)
  from d show "sessionMetrics_duration (endSession_d later (endSession_d now d)) =
      (later - t0) div 1000"
    by (simp add: endSession_d_def Let_def)
qed

theorem end_session_closed_not_found_witness:
  "length (filter (active_session event1 ''s1'') [example_active]) \<le> 1 \<and>
   findOne (active_session event1 ''s1'') [example_active] = Some 0 \<and>
   end_session [] event1 ''s1'' 6000
       (snd (end_session [] event1 ''s1'' 5000 [example_active])) =
     (Response 404 (Error ''Active session not found''),
      snd (end_session [] event1 ''s1'' 5000 [example_active])) \<and>
   findOne (active_session event1 ''s2'') [example_log] = None \<and>
   end_session [] event1 ''s2'' 5000 [example_log] =
     (Response 404 (Error ''Active session not found''), [example_log]) \<and>
   sessionStart example_log = Some 0 \<and>
   totalDuration (endSession 5000 example_log) = Some (round_seconds (5000 - 0)) \<and>
   sessionMetrics_startTime example_session = Some 0 \<and>
   sessionMetrics_duration (endSession_d 7000 (endSession_d 5000 example_session)) = 7"
proof -
  let ?db = "[example_active]"
  have h1: "length (filter (active_session event1 ''s1'') ?db) \<le> 1"
    "findOne (active_session event1 ''s1'') ?db = Some 0"
    by (simp_all add: active_session_def example_active_def new_CursorLog_def)
  have h2: "findOne (active_session event1 ''s2'') [example_log] = None"
    by (simp add: active_session_def example_log_def)
  have h3: "sessionStart example_log = Some 0" by (simp add: example_log_def)
  note t1 = end_session_closed_not_found[where db = ?db and e = event1 and s = "''s1''"
      and i = 0 and now = 5000 and later = 6000]
  note t2 = end_session_closed_not_found[where db = "[example_log]" and e = event1
      and s = "''s2''" and now = 5000 and l = example_log and ?t0.0 = 0
      and d = example_session and later = 7000]
  have h4: "sessionMetrics_startTime example_session = Some 0"
    by (simp add: example_session_def create_d_def)
  have p4: "sessionMetrics_duration (endSession_d 7000 (endSession_d 5000 example_session)) = 7"
    using t2 h4 by simp
  show ?thesis using t1 t2 h1 h2 h3 h4 p4 by blast
qed

section \<open>C5: the bound on cursorData\<close>

lemma slice_last_short: "length xs \<le> n \<Longrightarrow> slice_last n xs = xs"
  by (simp add: slice_last_def)

lemma length_slice_last: "length (slice_last n xs) = min n (length xs)"
  by (simp add: slice_last_def)

lemma slice_last_append: "slice_last n (slice_last n xs @ ys) = slice_last n (xs @ ys)"
proof (cases "length xs \<le> n")
  case True
  then show ?thesis by (simp add: slice_last_def)
next
  case False
  then have "length xs + length ys - (length xs - n + n) + (length xs - n) = length xs + length ys - n"
    by arith
  then show ?thesis by (simp add: slice_last_def)
qed

lemma cursorData_addCursorMovement:
  "cursorData (addCursorMovement x y a el now l) =
     slice_last 1000 (cursorData l @ [CursorSample x y now el a])"
  by (simp add: addCursorMovement_def Let_def slice_last_short)

lemma cursorData_addCursorMovements:
  "cursorData (addCursorMovements ms l) =
     (if ms = [] then cursorData l else slice_last 1000 (cursorData l @ map sample_of ms))"
proof (induction ms arbitrary: l)
  case Nil
  then show ?case by simp
next
  case (Cons m ms)
  obtain x y a el now where m: "m = (x, y, a, el, now)" by (cases m) auto
  show ?case
    using Cons.IH[of "addCursorMovement x y a el now l"]
    by (simp add: m cursorData_addCursorMovement slice_last_append slice_last_short
        length_slice_last)
qed

text \<open>
  Claim C5, as stated: \<^verbatim>\<open>cursorData\<close> of every session log never holds more than 1000
  samples. The model of the dashboard application pushes and never removes: a document
  with 1000 samples has 1001 after one more call.
\<close>

theorem cursorData_uncapped_counterexample:
  "length (d_cursorData (addCursorMovement_d 1 1 ''home'' None ''move'' 5
     ((create_d ''s1'' None event1 None None None None 0)
        \<lparr>d_cursorData := replicate 1000 (CursorSample_d 0 0 ''home'' None ''move'' 1)\<rparr>))) = 1001"
  by (simp add: addCursorMovement_d_def create_d_def)

text \<open>
  Claim C5, amended. In the model of the backend application \<^verbatim>\<open>cursorData\<close> holds at
  most 1000 samples after every call of \<^verbatim>\<open>addCursorMovement\<close>, namely the last 1000 of
  the samples it held followed by the new one; after a sequence of calls it holds the
  last 1000 of what it held followed by the samples of the calls. In the model of the
  dashboard application every call makes \<^verbatim>\<open>cursorData\<close> one sample longer.
\<close>

theorem cursorData_capped_in_backend:
  "length (cursorData (addCursorMovement x y a el now l)) \<le> 1000 \<and>
   cursorData (addCursorMovement x y a el now l) =
     slice_last 1000 (cursorData l @ [CursorSample x y now el a]) \<and>
   (ms \<noteq> [] \<or> length (cursorData l) \<le> 1000 \<longrightarrow>
      length (cursorData (addCursorMovements ms l)) \<le> 1000 \<and>
      cursorData (addCursorMovements ms l) = slice_last 1000 (cursorData l @ map sample_of ms)) \<and>
   length (d_cursorData (addCursorMovement_d x y page el a now d)) = length (d_cursorData d) + 1"
proof (intro conjI impI)
  show "length (cursorData (addCursorMovement x y a el now l)) \<le> 1000"
    by (simp add: cursorData_addCursorMovement length_slice_last)
  show "cursorData (addCursorMovement x y a el now l) =
     slice_last 1000 (cursorData l @ [CursorSample x y now el a])"
    by (rule cursorData_addCursorMovement)
  show "length (d_cursorData (addCursorMovement_d x y page el a now d)) = length (d_cursorData d) + 1"
    by (simp add: addCursorMovement_d_def Let_def)
next
  assume a: "ms \<noteq> [] \<or> length (cursorData l) \<le> 1000"
  then show eq: "cursorData (addCursorMovements ms l) = slice_last 1000 (cursorData l @ map sample_of ms)"
    by (auto simp: cursorData_addCursorMovements slice_last_short)
  show "length (cursorData (addCursorMovements ms l)) \<le> 1000"
    by (simp add: eq length_slice_last)
qed

theorem cursorData_capped_in_backend_witness:
  "length (cursorData (example_log\<lparr>cursorData := replicate 1000 (CursorSample 0 0 1 None ''move'')\<rparr>)) \<le> 1000 \<and>
   cursorData (addCursorMovements [(3, 4, ''click'', None, 9)]
       (example_log\<lparr>cursorData := replicate 1000 (CursorSample 0 0 1 None ''move'')\<rparr>)) =
     replicate 999 (CursorSample 0 0 1 None ''move'') @ [CursorSample 3 4 9 None ''click''] \<and>
   length (cursorData (addCursorMovements [(3, 4, ''click'', None, 9)]
       (example_log\<lparr>cursorData := replicate 1000 (CursorSample 0 0 1 None ''move'')\<rparr>))) \<le> 1000"
  using cursorData_capped_in_backend[where ms = "[(3, 4, ''click'', None, 9)]"
      and l = "example_log\<lparr>cursorData := replicate 1000 (CursorSample 0 0 1 None ''move'')\<rparr>"]
  by (simp add: slice_last_def)


section \<open>C6: scroll depth\<close>

lemma findOne_update_same:
  "i < length xs \<Longrightarrow> Q y = Q (xs ! i) \<Longrightarrow> findOne Q (xs[i := y]) = findOne Q xs"
proof (induction xs arbitrary: i)
  case Nil
  then show ?case by simp
next
  case (Cons x xs)
  then show ?case by (cases i) auto
qed

lemma findOne_append:
  "findOne Q (xs @ ys) =
     (case findOne Q xs of Some i \<Rightarrow> Some i
      | None \<Rightarrow> map_option (\<lambda>j. length xs + j) (findOne Q ys))"
  by (induction xs) (cases "findOne Q ys"; auto split: option.splits)+

lemma stored_depth_update:
  "stored_depth page (scrollDepth_update page depth now sds) =
     Some (case stored_depth page sds of None \<Rightarrow> depth | Some m \<Rightarrow> max m depth)"
proof (cases "findOne (\<lambda>s. se_page s = page) sds")
  case None
  then show ?thesis
    by (simp add: stored_depth_def scrollDepth_update_def findOne_append)
next
  case (Some i)
  then have i: "i < length sds" "se_page (sds ! i) = page" by (auto dest: findOne_Some)
  then have "findOne (\<lambda>s. se_page s = page) (sds[i := ScrollEntry (se_page (sds ! i)) depth now])
      = Some i"
    using Some by (simp add: findOne_update_same)
  with Some i show ?thesis
    by (auto simp: stored_depth_def scrollDepth_update_def max_def)
qed

lemma stored_depth_other:
  assumes "p \<noteq> page"
  shows "stored_depth p (scrollDepth_update page depth now sds) = stored_depth p sds"
proof (cases "findOne (\<lambda>s. se_page s = page) sds")
  case None
  with assms show ?thesis
    by (auto simp: stored_depth_def scrollDepth_update_def findOne_append nth_append
        dest: findOne_Some split: option.splits)
next
  case (Some i)
  then have i: "i < length sds" "se_page (sds ! i) = page" by (auto dest: findOne_Some)
  let ?y = "ScrollEntry (se_page (sds ! i)) depth now"
  have f: "findOne (\<lambda>s. se_page s = p) (sds[i := ?y]) = findOne (\<lambda>s. se_page s = p) sds"
    using i by (simp add: findOne_update_same)
  have "\<And>j. findOne (\<lambda>s. se_page s = p) sds = Some j \<Longrightarrow> j \<noteq> i"
    using i assms by (auto dest: findOne_Some)
  then have "map_option (\<lambda>j. maxDepth (sds[i := ?y] ! j)) (findOne (\<lambda>s. se_page s = p) sds) =
      map_option (\<lambda>j. maxDepth (sds ! j)) (findOne (\<lambda>s. se_page s = p) sds)"
    by (cases "findOne (\<lambda>s. se_page s = p) sds") auto
  with Some f show ?thesis
    by (simp add: stored_depth_def scrollDepth_update_def)
qed

lemma pages_update:
  "map se_page (scrollDepth_update page depth now sds) =
     (if page \<in> set (map se_page sds) then map se_page sds else map se_page sds @ [page])"
proof (cases "findOne (\<lambda>s. se_page s = page) sds")
  case None
  then have "page \<notin> set (map se_page sds)"
    by (auto simp: findOne_None filter_empty_conv)
  with None show ?thesis by (simp add: scrollDepth_update_def)
next
  case (Some i)
  then have i: "i < length sds" "se_page (sds ! i) = page" by (auto dest: findOne_Some)
  then have "page \<in> set (map se_page sds)" by (force simp: in_set_conv_nth)
  with Some i show ?thesis by (simp add: scrollDepth_update_def map_update_same)
qed

lemma distinct_pages_update:
  "distinct (map se_page sds) \<Longrightarrow> distinct (map se_page (scrollDepth_update page depth now sds))"
  by (simp add: pages_update)

lemma one_entry_after_update:
  assumes "distinct (map se_page sds)"
  shows "length (filter (\<lambda>s. se_page s = page) (scrollDepth_update page depth now sds)) = 1"
proof -
  let ?sds = "scrollDepth_update page depth now sds"
  have d: "distinct (map se_page ?sds)" using assms by (rule distinct_pages_update)
  have "page \<in> set (map se_page ?sds)" by (simp add: pages_update)
  then have "filter (\<lambda>s. se_page s = page) ?sds \<noteq> []"
    by (auto simp: filter_empty_conv)
  then have "length (filter (\<lambda>s. se_page s = page) ?sds) \<ge> 1"
    by (cases "filter (\<lambda>s. se_page s = page) ?sds") auto
  moreover have "length (filter (\<lambda>s. se_page s = page) ?sds) \<le> 1"
    using d by (rule distinct_filter_le1)
  ultimately show ?thesis by simp
qed

lemma stored_depth_mono_step:
  assumes "stored_depth p sds = Some m"
  shows "\<exists>m'. stored_depth p (scrollDepth_update page depth now sds) = Some m' \<and> m \<le> m'"
proof (cases "p = page")
  case True
  with assms show ?thesis by (simp add: stored_depth_update)
next
  case False
  with assms show ?thesis by (simp add: stored_depth_other)
qed

lemma stored_depth_mono:
  "stored_depth p (heatmapData_scrollDepth l) = Some m \<Longrightarrow>
     \<exists>m'. stored_depth p (heatmapData_scrollDepth (updateScrollDepths us l)) = Some m' \<and> m \<le> m'"
proof (induction us arbitrary: l m)
  case Nil
  then show ?case by simp
next
  case (Cons u us)
  obtain page depth now where u: "u = (page, depth, now)" by (cases u) auto
  from stored_depth_mono_step[OF Cons.prems, of page depth now]
  obtain m1 where m1: "stored_depth p (scrollDepth_update page depth now (heatmapData_scrollDepth l)) = Some m1"
    "m \<le> m1" by auto
  then have "stored_depth p (heatmapData_scrollDepth (updateScrollDepth page depth now l)) = Some m1"
    by (simp add: updateScrollDepth_def)
  from Cons.IH[OF this] obtain m' where
    "stored_depth p (heatmapData_scrollDepth (updateScrollDepths us (updateScrollDepth page depth now l))) = Some m'"
    "m1 \<le> m'" by auto
  with m1 u show ?case by auto
qed

lemma distinct_pages_updates:
  "distinct (map se_page (heatmapData_scrollDepth l)) \<Longrightarrow>
     distinct (map se_page (heatmapData_scrollDepth (updateScrollDepths us l)))"
proof (induction us arbitrary: l)
  case Nil
  then show ?case by simp
next
  case (Cons u us)
  obtain page depth now where u: "u = (page, depth, now)" by (cases u) auto
  show ?case using Cons.prems
    by (simp add: u Cons.IH updateScrollDepth_def distinct_pages_update)
qed

text \<open>
  Claim C6. The depth stored for a page never decreases under \<^verbatim>\<open>updateScrollDepth\<close>:
  after a call for a page the stored depth is the maximum of the depth stored before and
  the new one (the new one when the page had no entry), the depths of the other pages stay
  as they are, and over every sequence of calls a stored depth can only grow. Each page
  has one entry: pages that are distinct stay distinct, and the page of a call has exactly
  one entry after it.
\<close>

theorem scroll_depth_max_merge:
  "stored_depth page (heatmapData_scrollDepth (updateScrollDepth page depth now l)) =
     Some (case stored_depth page (heatmapData_scrollDepth l) of
             None \<Rightarrow> depth | Some m \<Rightarrow> max m depth) \<and>
   (p \<noteq> page \<longrightarrow>
      stored_depth p (heatmapData_scrollDepth (updateScrollDepth page depth now l)) =
        stored_depth p (heatmapData_scrollDepth l)) \<and>
   (stored_depth p (heatmapData_scrollDepth l) = Some m \<longrightarrow>
      (\<exists>m'. stored_depth p (heatmapData_scrollDepth (updateScrollDepths us l)) = Some m' \<and> m \<le> m')) \<and>
   (distinct (map se_page (heatmapData_scrollDepth l)) \<longrightarrow>
      distinct (map se_page (heatmapData_scrollDepth (updateScrollDepths us l))) \<and>
      length (filter (\<lambda>s. se_page s = page)
                (heatmapData_scrollDepth (updateScrollDepth page depth now l))) = 1)"
  using stored_depth_mono[of p l m us]
  by (simp add: updateScrollDepth_def stored_depth_update stored_depth_other
      distinct_pages_updates one_entry_after_update)

theorem scroll_depth_max_merge_witness:
  "''about'' \<noteq> ''home'' \<and>
   stored_depth ''home'' (heatmapData_scrollDepth example_scrolled) = Some 30 \<and>
   distinct (map se_page (heatmapData_scrollDepth example_scrolled)) \<and>
   stored_depth ''home''
     (heatmapData_scrollDepth (updateScrollDepth ''home'' 20 2 example_scrolled)) = Some 30 \<and>
   stored_depth ''about''
     (heatmapData_scrollDepth (updateScrollDepth ''home'' 20 2 example_scrolled)) =
     stored_depth ''about'' (heatmapData_scrollDepth example_scrolled) \<and>
   (\<exists>m'. stored_depth ''home''
           (heatmapData_scrollDepth
              (updateScrollDepths [(''home'', 20, 2), (''about'', 50, 3)] example_scrolled)) = Some m' \<and>
         30 \<le> m') \<and>
   length (filter (\<lambda>s. se_page s = ''home'')
     (heatmapData_scrollDepth (updateScrollDepth ''home'' 20 2 example_scrolled))) = 1"
proof -
  have sd: "heatmapData_scrollDepth example_scrolled = [ScrollEntry ''home'' 30 1]"
    by (simp add: example_scrolled_def example_session_def create_d_def updateScrollDepth_def
        scrollDepth_update_def)
  have h: "''about'' \<noteq> ''home''"
    "stored_depth ''home'' (heatmapData_scrollDepth example_scrolled) = Some 30"
    "distinct (map se_page (heatmapData_scrollDepth example_scrolled))"
    by (simp_all add: sd stored_depth_def)
  note t1 = scroll_depth_max_merge[where page = "''home''" and depth = 20 and now = 2
      and l = example_scrolled and p = "''about''"]
  note t2 = scroll_depth_max_merge[where l = example_scrolled and p = "''home''" and m = 30
      and us = "[(''home'', 20, 2), (''about'', 50, 3)]"]
  have "stored_depth ''home''
      (heatmapData_scrollDepth (updateScrollDepth ''home'' 20 2 example_scrolled)) = Some 30"
    using t1 h(2) by simp
  then show ?thesis using t1 t2 h by blast
qed


section \<open>C4: the grid of the heatmap\<close>

text \<open>What the claim says holds for the resolution 10: the clicks (12, 18) and (14, 19)
  are one group with the grid origin (10, 10) and the centroid (13, 18.5); the points are
  ordered by count, largest first.\<close>

lemma heatmap_resolution_ten:
  "getHeatmapData event1 None None None None
     [example_session\<lparr>heatmapData_clicks := [Click 12 18 ''home'' 1, Click 14 19 ''home'' 2]\<rparr>] =
   HeatmapResponse [HeatPoint 13 (37 / 2) 2 ''home'' 10 10] 10 1"
  by code_simp

lemma sorted_descending:
  "sorted (map (\<lambda>b. - int (f b)) xs) \<Longrightarrow> sorted (rev (map f xs))"
  by (induction xs) (auto simp: sorted_append)

lemma heatmap_counts_sorted:
  "sorted (rev (map hp_value (heatmap (getHeatmapData e page sd ed res db))))"
proof -
  have "sorted (rev (map count (sort_count bs)))" for bs
    by (rule sorted_descending) (simp add: sort_count_def)
  then show ?thesis
    by (simp add: getHeatmapData_def Let_def comp_def CursorLog_getHeatmapData_def)
qed


section \<open>C10: the page filter of the heatmap\<close>

lemma sum_list_insort_key:
  "sum_list (map g (insort_key f x xs)) = g x + sum_list (map (g :: 'a \<Rightarrow> nat) xs)"
  by (induction xs) auto

lemma sum_list_sort_key: "sum_list (map g (sort_key f xs)) = sum_list (map (g :: 'a \<Rightarrow> nat) xs)"
  by (induction xs) (simp_all add: sum_list_insort_key)

lemma set_first_occurrences: "set (first_occurrences ks) = set ks"
  by (simp add: first_occurrences_def)

lemma distinct_first_occurrences: "distinct (first_occurrences ks)"
  by (simp add: first_occurrences_def)

lemma sum_list_indicator:
  "distinct ks \<Longrightarrow> (\<Sum>k\<leftarrow>ks. if a = k then 1 else 0 :: nat) = (if a \<in> set ks then 1 else 0)"
  by (induction ks) auto

lemma sum_list_group_sizes:
  "distinct ks \<Longrightarrow> f ` set cs \<subseteq> set ks \<Longrightarrow>
     (\<Sum>k\<leftarrow>ks. length (filter (\<lambda>c. f c = k) cs)) = length cs"
proof (induction cs)
  case Nil
  then show ?case by simp
next
  case (Cons c cs)
  have "(\<Sum>k\<leftarrow>ks. length (filter (\<lambda>c. f c = k) (c # cs))) =
      (\<Sum>k\<leftarrow>ks. (if f c = k then 1 else 0) + length (filter (\<lambda>c. f c = k) cs))"
    by (intro arg_cong[where f = sum_list] map_cong) auto
  also have "\<dots> = (\<Sum>k\<leftarrow>ks. if f c = k then 1 else 0) + (\<Sum>k\<leftarrow>ks. length (filter (\<lambda>c. f c = k) cs))"
    by (simp add: sum_list_addf)
  also have "\<dots> = 1 + length cs"
    using Cons by (simp add: sum_list_indicator)
  finally show ?case by simp
qed

lemma bucket_ids_group_clicks: "map bucket_id (group_clicks cs) = first_occurrences (map group_id cs)"
  by (simp add: group_clicks_def Let_def comp_def)

lemma counts_group_clicks:
  "map count (group_clicks cs) =
     map (\<lambda>k. length (filter (\<lambda>c. group_id c = k) cs)) (first_occurrences (map group_id cs))"
  by (simp add: group_clicks_def Let_def comp_def)

lemma sum_counts_group_clicks: "sum_list (map count (group_clicks cs)) = length cs"
  by (simp add: counts_group_clicks sum_list_group_sizes distinct_first_occurrences
      set_first_occurrences)

lemma set_sort_count: "set (sort_count bs) = set bs"
  by (simp add: sort_count_def)

lemma matchConditions_page:
  "p \<noteq> [] \<Longrightarrow> matchConditions e (Some p) sd ed =
     (\<lambda>l. matchConditions e None sd ed l \<and> p \<in> set (map click_page (heatmapData_clicks l)))"
  by (rule ext) (auto simp: matchConditions_def)

lemma getHeatmapData_page:
  "p \<noteq> [] \<Longrightarrow> CursorLog_getHeatmapData e (Some p) sd ed db =
     sort_count (group_clicks (selected_clicks e p sd ed db))"
  by (simp add: CursorLog_getHeatmapData_def selected_clicks_def matchConditions_page)

lemma example_heatmap:
  "CursorLog_getHeatmapData event1 (Some ''home'') None None [example_two_pages, example_other_page] =
     [Bucket (1, 1, ''home'') 1 12 18, Bucket (30, 4, ''about'') 1 300 40]"
  by code_simp

text \<open>
  Claim C10. With a page filter \<open>p\<close> the heatmap query selects the documents that have
  at least one click on \<open>p\<close> and then groups every click of each selected document: the
  groups are exactly the groups of all clicks of the selected documents, and their counts
  add up to the number of those clicks. A document without a click on \<open>p\<close> contributes
  nothing: the result is the same without it. The result can hold a group of another
  page: for two documents, one with clicks on "home" and "about" and one with a click on
  "about" only, the filter "home" returns a group of the page "about".
\<close>

theorem page_filter_selects_sessions:
  "(p \<noteq> [] \<longrightarrow>
      CursorLog_getHeatmapData e (Some p) sd ed db =
        sort_count (group_clicks (selected_clicks e p sd ed db)) \<and>
      set (map bucket_id (CursorLog_getHeatmapData e (Some p) sd ed db)) =
        group_id ` set (selected_clicks e p sd ed db) \<and>
      sum_list (map count (CursorLog_getHeatmapData e (Some p) sd ed db)) =
        length (selected_clicks e p sd ed db)) \<and>
   (p \<noteq> [] \<and> p \<notin> set (map click_page (heatmapData_clicks l)) \<longrightarrow>
      CursorLog_getHeatmapData e (Some p) sd ed (db @ l # db') =
        CursorLog_getHeatmapData e (Some p) sd ed (db @ db')) \<and>
   (\<exists>b. b \<in> set (CursorLog_getHeatmapData event1 (Some ''home'') None None
                   [example_two_pages, example_other_page]) \<and>
        snd (snd (bucket_id b)) \<noteq> ''home'')"
proof (intro conjI impI)
  assume p: "p \<noteq> []"
  then show r: "CursorLog_getHeatmapData e (Some p) sd ed db =
        sort_count (group_clicks (selected_clicks e p sd ed db))"
    by (rule getHeatmapData_page)
  have "set (map bucket_id (sort_count (group_clicks (selected_clicks e p sd ed db)))) =
      set (map bucket_id (group_clicks (selected_clicks e p sd ed db)))"
    by (simp add: set_sort_count)
  then show "set (map bucket_id (CursorLog_getHeatmapData e (Some p) sd ed db)) =
        group_id ` set (selected_clicks e p sd ed db)"
    by (simp only: r bucket_ids_group_clicks set_first_occurrences set_map)
  show "sum_list (map count (CursorLog_getHeatmapData e (Some p) sd ed db)) =
        length (selected_clicks e p sd ed db)"
    by (simp add: r sort_count_def sum_list_sort_key sum_counts_group_clicks)
next
  assume "p \<noteq> [] \<and> p \<notin> set (map click_page (heatmapData_clicks l))"
  then show "CursorLog_getHeatmapData e (Some p) sd ed (db @ l # db') =
        CursorLog_getHeatmapData e (Some p) sd ed (db @ db')"
    by (simp add: CursorLog_getHeatmapData_def matchConditions_page)
next
  show "\<exists>b. b \<in> set (CursorLog_getHeatmapData event1 (Some ''home'') None None
                   [example_two_pages, example_other_page]) \<and>
        snd (snd (bucket_id b)) \<noteq> ''home''"
    by (rule exI[where x = "Bucket (30, 4, ''about'') 1 300 40"]) (simp add: example_heatmap)
qed

theorem page_filter_selects_sessions_witness:
  "''home'' \<noteq> [] \<and>
   ''home'' \<notin> set (map click_page (heatmapData_clicks example_other_page)) \<and>
   CursorLog_getHeatmapData event1 (Some ''home'') None None [example_two_pages, example_other_page] =
     CursorLog_getHeatmapData event1 (Some ''home'') None None [example_two_pages] \<and>
   sum_list (map count (CursorLog_getHeatmapData event1 (Some ''home'') None None
       [example_two_pages, example_other_page])) = 2 \<and>
   set (map bucket_id (CursorLog_getHeatmapData event1 (Some ''home'') None None
       [example_two_pages, example_other_page])) = {(1, 1, ''home''), (30, 4, ''about'')}"
proof -
  have h: "''home'' \<noteq> []"
    "''home'' \<notin> set (map click_page (heatmapData_clicks example_other_page))"
    by (simp_all add: example_other_page_def)
  have s: "selected_clicks event1 ''home'' None None [example_two_pages, example_other_page] =
      [Click 12 18 ''home'' 1, Click 300 40 ''about'' 2]"
    by (simp add: selected_clicks_def matchConditions_def example_two_pages_def
        example_other_page_def example_session_def create_d_def)
  note t1 = page_filter_selects_sessions[where p = "''home''" and e = event1 and sd = None
      and ed = None and db = "[example_two_pages, example_other_page]"]
  note t2 = page_filter_selects_sessions[where p = "''home''" and e = event1 and sd = None
      and ed = None and db = "[example_two_pages]" and l = example_other_page and db' = "[]"]
  have g: "group_id (Click 12 18 ''home'' 1) = (1, 1, ''home'')"
    "group_id (Click 300 40 ''about'' 2) = (30, 4, ''about'')"
    by (simp_all add: group_id_def floor_eq_iff)
  have a: "CursorLog_getHeatmapData event1 (Some ''home'') None None
        [example_two_pages, example_other_page] =
      CursorLog_getHeatmapData event1 (Some ''home'') None None [example_two_pages]"
    using t2 h by simp
  have b: "sum_list (map count (CursorLog_getHeatmapData event1 (Some ''home'') None None
       [example_two_pages, example_other_page])) = 2"
  proof -
    have "sum_list (map count (CursorLog_getHeatmapData event1 (Some ''home'') None None
        [example_two_pages, example_other_page])) =
      length (selected_clicks event1 ''home'' None None [example_two_pages, example_other_page])"
      using t1 h(1) by blast
    then show ?thesis by (simp add: s)
  qed
  have c: "set (map bucket_id (CursorLog_getHeatmapData event1 (Some ''home'') None None
       [example_two_pages, example_other_page])) = {(1, 1, ''home''), (30, 4, ''about'')}"
  proof -
    have "set (map bucket_id (CursorLog_getHeatmapData event1 (Some ''home'') None None
        [example_two_pages, example_other_page])) =
      group_id ` set (selected_clicks event1 ''home'' None None
        [example_two_pages, example_other_page])"
      using t1 h(1) by blast
    then show ?thesis by (simp add: s g)
  qed
  show ?thesis using h a b c by blast
qed

section \<open>The server state under the handlers\<close>

lemma room_inj [simp]: "room a = room b \<longleftrightarrow> a = b"
  by (simp add: room_def)

lemma rooms_emit [simp]: "rooms (emit to name p st) = rooms st"
  by (simp add: emit_def)

lemma closures_emit [simp]: "closures (emit to name p st) = closures st"
  by (simp add: emit_def)

lemma activeSessions_emit [simp]: "activeSessions (emit to name p st) = activeSessions st"
  by (simp add: emit_def)

lemma emitted_emit [simp]: "emitted (emit to name p st) = emitted st @ [Emit to name p]"
  by (simp add: emit_def)

lemma log_active_fields [simp]:
  "rooms (log_active s e change st) = rooms st"
  "closures (log_active s e change st) = closures st"
  "activeSessions (log_active s e change st) = activeSessions st"
  "emitted (log_active s e change st) = emitted st"
  by (simp_all add: log_active_def split: option.splits)

lemma find_or_create_fields [simp]:
  "rooms (find_or_create sid uid e data now st) = rooms st"
  "closures (find_or_create sid uid e data now st) = closures st"
  "activeSessions (find_or_create sid uid e data now st) = activeSessions st"
  "emitted (find_or_create sid uid e data now st) = emitted st"
  by (simp_all add: find_or_create_def split: option.splits)

lemma leave_room_fields [simp]:
  "rooms (leave_room sid r st) = (rooms st)(r := rooms st r - {sid})"
  "closures (leave_room sid r st) = closures st"
  "activeSessions (leave_room sid r st) = activeSessions st"
  "emitted (leave_room sid r st) = emitted st"
  by (simp_all add: leave_room_def)

lemma join_room_fields [simp]:
  "rooms (join_room sid r st) = (rooms st)(r := insert sid (rooms st r))"
  "closures (join_room sid r st) = closures st"
  "activeSessions (join_room sid r st) = activeSessions st"
  "emitted (join_room sid r st) = emitted st"
  by (simp_all add: join_room_def)

lemma touch_fields [simp]:
  "rooms (touch sid sd now st) = rooms st"
  "activeSessions (touch sid sd now st) = activeSessions st"
  "emitted (touch sid sd now st) = emitted st"
  "closures (touch sid sd now st) = (closures st)(sid \<mapsto> sd\<lparr>lastActivity := now\<rparr>)"
  by (simp_all add: touch_def)

lemma rooms_okD:
  "rooms_ok st \<Longrightarrow> sid \<in> rooms st r \<Longrightarrow>
     \<exists>sd. closures st sid = Some sd \<and> truthy (currentEvent sd) \<and> r = room (the (currentEvent sd))"
  by (simp add: rooms_ok_def)

lemma rooms_ok_touch:
  assumes "rooms_ok st" "closures st sid = Some sd"
  shows "rooms_ok (touch sid sd now st)"
  unfolding rooms_ok_def
proof (intro allI impI)
  fix k r
  assume "k \<in> rooms (touch sid sd now st) r"
  then have "k \<in> rooms st r" by simp
  from rooms_okD[OF assms(1) this] assms(2)
  show "\<exists>sd'. closures (touch sid sd now st) k = Some sd' \<and> truthy (currentEvent sd') \<and>
      r = room (the (currentEvent sd'))"
    by (cases "k = sid") auto
qed








lemma cleanup_entry_fields [simp]:
  "rooms (cleanup_entry now sid st) = rooms st"
  "closures (cleanup_entry now sid st) = closures st"
  by (simp_all add: cleanup_entry_def Let_def split: option.splits)

lemma cleanup_loop_fields [simp]:
  "rooms (cleanup_loop now sids st) = rooms st"
  "closures (cleanup_loop now sids st) = closures st"
  by (induction sids arbitrary: st) simp_all


lemma events_of_simps [simp]:
  "events_of (emit to name p st) = events_of st"
  "events_of (log_active s e change st) = events_of st"
  by (simp_all add: events_of_def)













section \<open>C7: one room per connection\<close>




section \<open>C3: the event lookup\<close>




section \<open>C8: the cleanup of inactive connections\<close>

lemma stale_cleanup_entry [simp]: "stale now (cleanup_entry t k st) = stale now st"
  by (simp add: stale_def fun_eq_iff)















lemma cleanup_fields [simp]:
  "rooms (cleanup now st) = rooms st"
  "closures (cleanup now st) = closures st"
  by (simp_all add: cleanup_def)





end
